theory Spec2Isabelle
  imports Complex_Main "HOL-Library.Multiset" "HOL-Library.Sublist"
begin

section \<open>Values of the trainer: errors, arrays, Python indexing\<close>

text \<open>
  The exceptions that \<^verbatim>\<open>CountingNN/main.py\<close> raises itself or provokes in the
  interpreter. A raise is the left injection of a sum.
\<close>

datatype error =
    TypeError | ValueError | NotImplementedError | AttributeError | IndexError
  | ZeroDivisionError | UnboundLocalError | AssertionError

text \<open>
  An n-dimensional array as nested sequences along the leading axis: \<open>Arr xs\<close> has
  \<open>length xs\<close> entries along its first axis, \<open>Scalar v\<close> is zero-dimensional.
  Elements are idealised as reals; rounding of machine floats is not modelled.
\<close>

datatype nd = Scalar real | Arr "nd list"

text \<open>\<^verbatim>\<open>xs[i]\<close> on a sequence: negative indices count from the end, out of range raises.\<close>

definition py_getitem :: "'a list \<Rightarrow> int \<Rightarrow> error + 'a" where
  "py_getitem xs i =
     (if 0 \<le> i \<and> i < int (length xs) then Inr (xs ! nat i)
      else if i < 0 \<and> - int (length xs) \<le> i then Inr (xs ! nat (int (length xs) + i))
      else Inl IndexError)"

text \<open>\<^verbatim>\<open>xs[:k]\<close>: the first \<open>k\<close> entries; a negative \<open>k\<close> drops \<open>-k\<close> entries from the end.\<close>

definition py_slice_to :: "'a list \<Rightarrow> int \<Rightarrow> 'a list" where
  "py_slice_to xs k = (if k < 0 then take (length xs - nat (- k)) xs else take (nat k) xs)"

text \<open>\<^verbatim>\<open>X[i]\<close> and \<^verbatim>\<open>X[:k]\<close> on an array; a zero-dimensional array cannot be indexed.\<close>

fun nd_getitem :: "nd \<Rightarrow> int \<Rightarrow> error + nd" where
  "nd_getitem (Scalar v) i = Inl IndexError"
| "nd_getitem (Arr xs) i = py_getitem xs i"

fun nd_slice_to :: "nd \<Rightarrow> int \<Rightarrow> error + nd" where
  "nd_slice_to (Scalar v) k = Inl IndexError"
| "nd_slice_to (Arr xs) k = Inr (Arr (py_slice_to xs k))"

text \<open>\<^verbatim>\<open>len(X)\<close>.\<close>

fun nd_len :: "nd \<Rightarrow> error + nat" where
  "nd_len (Scalar v) = Inl TypeError"
| "nd_len (Arr xs) = Inr (length xs)"

section \<open>Loss selection\<close>

text \<open>
  The \<^verbatim>\<open>loss\<close> argument of \<^verbatim>\<open>select_loss\<close> is a string token, a callable, or some
  other object (neither a string nor callable).
\<close>

datatype loss_arg = Token string | Callable "nd \<Rightarrow> nd \<Rightarrow> real" | OtherObject

text \<open>
  The three torch losses the method constructs; \<open>AsGiven loss\<close> is the branch
  \<^verbatim>\<open>criterion = loss\<close>, which hands the caller's object back unchanged.
\<close>

datatype criterion =
    BCEWithLogitsLoss | CrossEntropyLoss | MSELoss | AsGiven loss_arg

text \<open>\<^verbatim>\<open>hasattr(loss, "__call__")\<close>: a string is not callable.\<close>

fun has_call :: "loss_arg \<Rightarrow> bool" where
  "has_call (Callable f) = True"
| "has_call (Token s) = False"
| "has_call OtherObject = False"

text \<open>
  \<^verbatim>\<open>select_loss(self, loss, nb_classes=None)\<close>, lines 107-132: the \<^verbatim>\<open>if\<close>/\<^verbatim>\<open>elif\<close>
  chain in the source's order. \<^verbatim>\<open>nb_classes > 2\<close> is reached only for the token
  \<^verbatim>\<open>'ce'\<close> with a class count that is not \<^verbatim>\<open>None\<close>.
\<close>

definition select_loss :: "loss_arg \<Rightarrow> int option \<Rightarrow> error + criterion" where
  "select_loss loss nb_classes =
     (if loss = Token ''ce'' \<and> nb_classes = None then Inl ValueError
      else if loss = Token ''ce'' \<and> nb_classes = Some 1 then Inr BCEWithLogitsLoss
      else if loss = Token ''ce'' \<and> (case nb_classes of Some k \<Rightarrow> 2 < k | None \<Rightarrow> False)
        then Inr CrossEntropyLoss
      else if loss = Token ''mse'' then Inr MSELoss
      else if has_call loss then Inr (AsGiven loss)
      else Inl NotImplementedError)"

section \<open>The trainer object and its surroundings\<close>

text \<open>
  The model under training: its named parameter tensors (an ordered dictionary, each
  tensor flattened) and its train/eval mode flag.
\<close>

record net =
  state_dict :: "(string \<times> real list) list"
  training :: bool

text \<open>
  \<^verbatim>\<open>perturb_weights\<close> is a flag or a schedule dictionary with the keys \<^verbatim>\<open>"a"\<close>,
  \<^verbatim>\<open>"gamma"\<close> and \<^verbatim>\<open>"e_p"\<close>, held here in that order.
\<close>

datatype pw = PwBool bool | PwDict real real int

text \<open>A batch schedule is a Python list (as \<^verbatim>\<open>__init__\<close> leaves it) or a numpy array.\<close>

datatype idx_seq = PyList "int list" | NdArray "int list"

fun idx_items :: "idx_seq \<Rightarrow> int list" where
  "idx_items (PyList xs) = xs"
| "idx_items (NdArray xs) = xs"

text \<open>
  The fields \<^verbatim>\<open>Trainer.__init__\<close> creates (lines 35-59). The four sequences of
  \<^verbatim>\<open>loss_acc\<close> are fields of their own.
\<close>

record trainer =
  device :: string
  net :: "net option"
  criterion :: "criterion option"
  optimizer :: "string option"
  compute_accuracy :: bool
  full_epoch :: bool
  swa :: bool
  perturb_weights :: pw
  running_weights :: "int \<rightharpoonup> (string \<times> real list) list"
  training_cycles :: int
  batch_idx_train :: idx_seq
  batch_idx_test :: idx_seq
  batch_size :: int
  nb_class :: "int option"
  X_train :: "nd option"
  y_train :: "nd option"
  X_test :: "nd option"
  y_test :: "nd option"
  train_loader :: "nd list list"
  test_loader :: "nd list list"
  data_is_set :: bool
  filename :: string
  print_loss :: "int option"
  meta_state_dict :: "(string \<times> string) list"
  train_loss :: "real list"
  test_loss :: "real list"
  train_accuracy :: "real list"
  test_accuracy :: "real list"

text \<open>What the program prints; \<open>Around v d\<close> stands for \<^verbatim>\<open>np.around(v, d)\<close>.\<close>

datatype shown = Around real nat

datatype gpu_usage = GpuNA | GpuUsed "int list"

datatype printed =
    Warning string
  | Message string
  | Statistics nat int shown shown "(string \<times> shown \<times> shown) option" gpu_usage
  | EvalLoss shown
  | EvalIoU shown

text \<open>
  Everything a method can read or change: the trainer object, the printed output, the
  files written by \<^verbatim>\<open>torch.save\<close>, and the state of torch's global random generator.
\<close>

record world =
  self :: trainer
  stdout :: "printed list"
  files :: "string \<rightharpoonup> (string \<times> real list) list"
  torch_rng :: nat

definition emit :: "printed \<Rightarrow> world \<Rightarrow> world" where
  "emit x w = w\<lparr>stdout := stdout w @ [x]\<rparr>"

text \<open>
  Sequencing of two statements: an exception raised by the first ends the computation
  in the state reached so far.
\<close>

definition and_then ::
  "(world \<Rightarrow> (error + 'a) \<times> world) \<Rightarrow> ('a \<Rightarrow> world \<Rightarrow> (error + 'b) \<times> world)
    \<Rightarrow> world \<Rightarrow> (error + 'b) \<times> world" where
  "and_then m k w = (case m w of (Inl e, w') \<Rightarrow> (Inl e, w') | (Inr x, w') \<Rightarrow> k x w')"

text \<open>
  Attributes that the methods read through \<^verbatim>\<open>self\<close> but that class \<^verbatim>\<open>Trainer\<close>
  defines nowhere: \<^verbatim>\<open>train_step\<close>, \<^verbatim>\<open>test_step\<close>, \<^verbatim>\<open>average_weights\<close>,
  \<^verbatim>\<open>plot_losses\<close> and \<^verbatim>\<open>accuracy_metrics\<close>. \<open>None\<close> means the lookup finds nothing
  and raises \<^verbatim>\<open>AttributeError\<close>; \<open>Some\<close> is what a subclass of this base class (or
  an assignment on the instance) supplies. A step returns the tuple
  \<^verbatim>\<open>(loss, accuracy)\<close> or \<^verbatim>\<open>(loss,)\<close>; the evaluation step only reads the state.
\<close>

record cls =
  train_step :: "(nd \<Rightarrow> nd \<Rightarrow> world \<Rightarrow> (error + real list) \<times> world) option"
  test_step :: "(nd \<Rightarrow> nd \<Rightarrow> world \<Rightarrow> error + real list) option"
  average_weights ::
    "((int \<rightharpoonup> (string \<times> real list) list) \<Rightarrow> error + (string \<times> real list) list) option"
  plot_losses :: "(real list \<Rightarrow> real list \<Rightarrow> world \<Rightarrow> (error + unit) \<times> world) option"
  accuracy_metrics :: "string option option"

text \<open>Class \<^verbatim>\<open>Trainer\<close> as the source defines it: none of the five exists.\<close>

definition Trainer_class :: cls where
  "Trainer_class =
     \<lparr>train_step = None, test_step = None, average_weights = None, plot_losses = None,
      accuracy_metrics = None\<rparr>"

text \<open>Values that travel through \<^verbatim>\<open>fit\<close> and the preprocessing: arrays with their kind.\<close>

datatype dtype = Float | Long | Unchanged

datatype pyval = Ndarray dtype nd | Tensor dtype nd | TrainerObj | IntVal int | NoneVal

text \<open>
  Collaborators outside \<^verbatim>\<open>main.py\<close> (torch, numpy, scikit-learn, \<^verbatim>\<open>CountingNN.FCN\<close>,
  \<^verbatim>\<open>CountingNN.utils\<close>), taken as parameters:
  \<^item> \<open>set_train_rng seed\<close>: the generator state that seeding with \<open>seed\<close> installs;
  \<^item> \<open>TensorDataset0\<close>: the items that iterating \<^verbatim>\<open>TensorDataset()\<close> yields;
  \<^item> \<open>train_test_split X y test_size seed\<close>: scikit-learn's split, which raises on data
    it cannot split (\<^verbatim>\<open>None\<close>, unequal lengths, too few samples);
  \<^item> \<open>rng_permutation seed n\<close>: the order into which \<^verbatim>\<open>RandomState(seed)\<close> shuffles
    \<^verbatim>\<open>arange(n)\<close>;
  \<^item> \<open>torch_normal g n std\<close>: \<open>n\<close> zero-mean normal draws of deviation \<open>std\<close> from
    generator state \<open>g\<close>, and the state after them;
  \<^item> \<open>nvidia_smi\<close>: the integers parsed from the GPU query.
\<close>

record ext =
  set_train_rng :: "int \<Rightarrow> nat"
  cuda_is_available :: bool
  TensorDataset0 :: "nd list list"
  SegResNet :: net
  train_test_split ::
    "pyval \<Rightarrow> pyval \<Rightarrow> real \<Rightarrow> int \<Rightarrow> error + pyval \<times> pyval \<times> pyval \<times> pyval"
  num_classes_from_labels :: "pyval \<Rightarrow> error + int"
  check_image_dims ::
    "pyval \<Rightarrow> pyval \<Rightarrow> pyval \<Rightarrow> pyval \<Rightarrow> int \<Rightarrow> error + pyval \<times> pyval \<times> pyval \<times> pyval"
  rng_permutation :: "int \<Rightarrow> nat \<Rightarrow> nat list"
  torch_normal :: "nat \<Rightarrow> nat \<Rightarrow> real \<Rightarrow> real list \<times> nat"
  nvidia_smi :: "int list"

text \<open>
  \<^verbatim>\<open>Trainer.__init__\<close>, lines 35-59: the object's fields, given the device string
  and the empty dataset, and the constructor itself, which first seeds the generator.
\<close>

definition new_trainer :: "string \<Rightarrow> nd list list \<Rightarrow> trainer" where
  "new_trainer dev empty_dataset =
     \<lparr>device = dev,
      net = None, criterion = None, optimizer = None,
      compute_accuracy = False, full_epoch = True, swa = False,
      perturb_weights = PwBool False, running_weights = Map.empty,
      training_cycles = 0, batch_idx_train = PyList [], batch_idx_test = PyList [],
      batch_size = 1, nb_class = None,
      X_train = None, y_train = None, X_test = None, y_test = None,
      train_loader = empty_dataset, test_loader = empty_dataset,
      data_is_set = False, filename = ''model'', print_loss = Some 1,
      meta_state_dict = [],
      train_loss = [], test_loss = [], train_accuracy = [], test_accuracy = []\<rparr>"

definition Trainer_init :: "ext \<Rightarrow> world \<Rightarrow> world" where
  "Trainer_init x w =
     w\<lparr>torch_rng := set_train_rng x 1,
       self := new_trainer (if cuda_is_available x then ''cuda'' else ''cpu'')
                 (TensorDataset0 x)\<rparr>"

section \<open>Mini-batch access\<close>

text \<open>
  \<^verbatim>\<open>dataloader(self, batch_num, mode='train')\<close>, lines 134-148. Subscripting \<^verbatim>\<open>None\<close>
  (data never stored on the object) is a \<^verbatim>\<open>TypeError\<close>.
\<close>

definition subscript_slice :: "nd option \<Rightarrow> int \<Rightarrow> int \<Rightarrow> error + nd" where
  "subscript_slice X batch_num k =
     (case X of None \<Rightarrow> Inl TypeError
      | Some A \<Rightarrow> (case nd_getitem A batch_num of Inl e \<Rightarrow> Inl e
                   | Inr sample \<Rightarrow> nd_slice_to sample k))"

definition dataloader :: "trainer \<Rightarrow> int \<Rightarrow> string \<Rightarrow> error + nd \<times> nd" where
  "dataloader t batch_num mode =
     (if mode = ''test'' then
        (case subscript_slice (X_test t) batch_num (batch_size t) of Inl e \<Rightarrow> Inl e
         | Inr features \<Rightarrow>
            (case subscript_slice (y_test t) batch_num (batch_size t) of Inl e \<Rightarrow> Inl e
             | Inr targets \<Rightarrow> Inr (features, targets)))
      else
        (case subscript_slice (X_train t) batch_num (batch_size t) of Inl e \<Rightarrow> Inl e
         | Inr features \<Rightarrow>
            (case subscript_slice (y_train t) batch_num (batch_size t) of Inl e \<Rightarrow> Inl e
             | Inr targets \<Rightarrow> Inr (features, targets))))"

section \<open>Batch schedules\<close>

text \<open>
  \<^verbatim>\<open>np.arange(n)\<close>, \<^verbatim>\<open>a.repeat(k)\<close> (every element \<open>k\<close> times in a row) and
  \<^verbatim>\<open>sklearn.utils.shuffle(a, random_state=seed)\<close>, which indexes \<open>a\<close> by the
  generator's permutation of its positions.
\<close>

definition np_arange :: "nat \<Rightarrow> int list" where
  "np_arange n = map int [0..<n]"

definition np_repeat :: "'a list \<Rightarrow> nat \<Rightarrow> 'a list" where
  "np_repeat xs k = concat (map (replicate k) xs)"

definition sk_shuffle :: "(int \<Rightarrow> nat \<Rightarrow> nat list) \<Rightarrow> int \<Rightarrow> 'a list \<Rightarrow> 'a list" where
  "sk_shuffle perm seed xs = map (\<lambda>i. xs ! i) (perm seed (length xs))"

text \<open>
  Lines 326-328 of \<^verbatim>\<open>fit\<close> (and 329-331 for the test partition), for a partition
  of \<open>n\<close> samples and \<open>C\<close> training cycles: \<^verbatim>\<open>r = C // n\<close>, then
  \<^verbatim>\<open>np.arange(n).repeat(r + 1)[:C]\<close>. Division by an empty partition and a negative
  repeat count raise.
\<close>

definition repeat_truncate :: "nat \<Rightarrow> int \<Rightarrow> error + int list" where
  "repeat_truncate n C =
     (if n = 0 then Inl ZeroDivisionError
      else let r = C div int n in
        if r + 1 < 0 then Inl ValueError
        else Inr (py_slice_to (np_repeat (np_arange n) (nat (r + 1))) C))"

text \<open>The schedule of one partition: lines 326-328 followed by the shuffle of 332-333.\<close>

definition batch_schedule ::
  "(int \<Rightarrow> nat \<Rightarrow> nat list) \<Rightarrow> int \<Rightarrow> nat \<Rightarrow> int \<Rightarrow> error + int list" where
  "batch_schedule perm seed n C =
     (case repeat_truncate n C of Inl e \<Rightarrow> Inl e
      | Inr xs \<Rightarrow> Inr (sk_shuffle perm seed xs))"

text \<open>The generator's contract: it reorders the positions \<open>0, ..., n - 1\<close>.\<close>

definition is_permutation :: "(int \<Rightarrow> nat \<Rightarrow> nat list) \<Rightarrow> bool" where
  "is_permutation perm = (\<forall>seed n. mset (perm seed n) = mset [0..<n])"

section \<open>One training cycle\<close>

text \<open>
  \<^verbatim>\<open>self.batch_idx_train[self]\<close> in \<^verbatim>\<open>step\<close>: the subscript is the trainer object
  itself, which is no index. A list answers \<^verbatim>\<open>TypeError\<close>, a numpy array
  \<^verbatim>\<open>IndexError\<close>.
\<close>

fun subscript_by_object :: "idx_seq \<Rightarrow> error + int" where
  "subscript_by_object (PyList xs) = Inl TypeError"
| "subscript_by_object (NdArray xs) = Inl IndexError"

text \<open>
  The body of \<^verbatim>\<open>step\<close>, lines 156-168, statement by statement. The cycle number
  never enters it: the method's only parameter is \<^verbatim>\<open>self\<close>.
\<close>

definition step :: "cls \<Rightarrow> world \<Rightarrow> (error + unit) \<times> world" where
  "step c w =
    (case subscript_by_object (batch_idx_train (self w)) of Inl e \<Rightarrow> (Inl e, w)
     | Inr i \<Rightarrow>
    (case dataloader (self w) i ''train'' of Inl e \<Rightarrow> (Inl e, w)
     | Inr (features, targets) \<Rightarrow>
    (case train_step c of None \<Rightarrow> (Inl AttributeError, w)
     | Some train \<Rightarrow>
    (case train features targets w of (Inl e, w1) \<Rightarrow> (Inl e, w1)
     | (Inr loss, w1) \<Rightarrow>
    (case py_getitem loss 0 of Inl e \<Rightarrow> (Inl e, w1)
     | Inr l0 \<Rightarrow>
    (let w2 = w1\<lparr>self := (self w1)\<lparr>train_loss := train_loss (self w1) @ [l0]\<rparr>\<rparr> in
    (case subscript_by_object (batch_idx_test (self w2)) of Inl e \<Rightarrow> (Inl e, w2)
     | Inr j \<Rightarrow>
    (case dataloader (self w2) j ''test'' of Inl e \<Rightarrow> (Inl e, w2)
     | Inr (features', targets') \<Rightarrow>
    (case test_step c of None \<Rightarrow> (Inl AttributeError, w2)
     | Some test \<Rightarrow>
    (case test features' targets' w2 of Inl e \<Rightarrow> (Inl e, w2)
     | Inr loss' \<Rightarrow>
    (case py_getitem loss' 0 of Inl e \<Rightarrow> (Inl e, w2)
     | Inr l0' \<Rightarrow>
    (let w3 = w2\<lparr>self := (self w2)\<lparr>test_loss := test_loss (self w2) @ [l0']\<rparr>\<rparr> in
     if compute_accuracy (self w3) then
       (case py_getitem loss 1 of Inl e \<Rightarrow> (Inl e, w3)
        | Inr l1 \<Rightarrow>
       (let w4 = w3\<lparr>self := (self w3)\<lparr>train_accuracy := train_accuracy (self w3) @ [l1]\<rparr>\<rparr> in
       (case py_getitem loss' 1 of Inl e \<Rightarrow> (Inl e, w4)
        | Inr l1' \<Rightarrow>
          (Inr (),
           w4\<lparr>self := (self w4)\<lparr>test_accuracy := test_accuracy (self w4) @ [l1']\<rparr>\<rparr>))))
     else (Inr (), w3)))))))))))))"

text \<open>
  The call \<^verbatim>\<open>self.step(a1, ..., ak)\<close>. The method is declared \<^verbatim>\<open>def step(self: int)\<close>,
  so binding any further positional argument fails with \<^verbatim>\<open>TypeError\<close> before the
  body starts.
\<close>

definition call_step :: "cls \<Rightarrow> nat list \<Rightarrow> world \<Rightarrow> (error + unit) \<times> world" where
  "call_step c args w = (case args of [] \<Rightarrow> step c w | a # as \<Rightarrow> (Inl TypeError, w))"

section \<open>Stochastic weight averaging and weight perturbation\<close>

text \<open>
  \<^verbatim>\<open>save_running_weights(self, e)\<close>, lines 170-181. The copy made by
  \<^verbatim>\<open>copy.deepcopy(v).cpu()\<close> is the value itself here: values are not shared.
  \<^verbatim>\<open>self.net\<close> is only read inside the window.
\<close>

definition save_running_weights :: "nat \<Rightarrow> world \<Rightarrow> (error + unit) \<times> world" where
  "save_running_weights e w =
     (let swa_epochs = 30 in
      if training_cycles (self w) - int e \<le> swa_epochs then
        (let i = swa_epochs - (training_cycles (self w) - int e) in
         case net (self w) of None \<Rightarrow> (Inl AttributeError, w)
         | Some n \<Rightarrow>
             (Inr (),
              w\<lparr>self := (self w)\<lparr>running_weights :=
                   (running_weights (self w))(i \<mapsto> state_dict n)\<rparr>\<rparr>))
      else (Inr (), w))"

text \<open>
  The loop of lines 71-73: each tensor gets its own draw, in dictionary order, and the
  generator state is threaded through.
\<close>

fun perturb_items ::
  "(nat \<Rightarrow> nat \<Rightarrow> real \<Rightarrow> real list \<times> nat) \<Rightarrow> real \<Rightarrow> (string \<times> real list) list \<Rightarrow> nat
    \<Rightarrow> (string \<times> real list) list \<times> nat" where
  "perturb_items normal std [] g = ([], g)"
| "perturb_items normal std ((k, v) # kvs) g =
     (case normal g (length v) std of (noise, g1) \<Rightarrow>
        (case perturb_items normal std kvs g1 of (rest, g2) \<Rightarrow>
           ((k, map2 (+) v noise) # rest, g2)))"

text \<open>
  \<^verbatim>\<open>weight_perturbation(self, e)\<close>, lines 61-74. The three subscripts on
  \<^verbatim>\<open>self.perturb_weights\<close> come first: on a \<^verbatim>\<open>bool\<close> they raise \<^verbatim>\<open>TypeError\<close>.
  The cycle number is a value of \<^verbatim>\<open>range(training_cycles)\<close>, so \<open>1 + e\<close> is
  positive and the power is a real power.
\<close>

definition weight_perturbation :: "ext \<Rightarrow> nat \<Rightarrow> world \<Rightarrow> (error + unit) \<times> world" where
  "weight_perturbation x e w =
     (case perturb_weights (self w) of PwBool b \<Rightarrow> (Inl TypeError, w)
      | PwDict a gamma e_p \<Rightarrow>
          if e_p = 0 then (Inl ZeroDivisionError, w)
          else if (int e + 1) mod e_p = 0 then
            (let var = a / (1 + real e) powr gamma in
             case net (self w) of None \<Rightarrow> (Inl AttributeError, w)
             | Some n \<Rightarrow>
                 (case perturb_items (torch_normal x) (sqrt var) (state_dict n) (torch_rng w) of
                    (sd, g) \<Rightarrow>
                      (Inr (),
                       w\<lparr>self := (self w)\<lparr>net := Some (n\<lparr>state_dict := sd\<rparr>)\<rparr>,
                         torch_rng := g\<rparr>)))
          else (Inr (), w))"

section \<open>Reporting and evaluation\<close>

text \<open>
  The condition of lines 357-358,
  \<^verbatim>\<open>any([e == 0, (e + 1) % print_loss == 0, e == training_cycles - 1])\<close>, over the local
  variable \<^verbatim>\<open>print_loss\<close> of \<^verbatim>\<open>fit\<close>: \<open>None\<close> is the variable still unbound. The list is
  built in full before \<^verbatim>\<open>any\<close> looks at it.
\<close>

definition report_due :: "int option \<Rightarrow> int \<Rightarrow> nat \<Rightarrow> error + bool" where
  "report_due print_loss_local cycles e =
     (case print_loss_local of None \<Rightarrow> Inl UnboundLocalError
      | Some p \<Rightarrow>
          if p = 0 then Inl ZeroDivisionError
          else Inr (e = 0 \<or> (int e + 1) mod p = 0 \<or> int e = cycles - 1))"

text \<open>\<^verbatim>\<open>print_statistics(self, e)\<close>, lines 183-222; its first statement reads
  \<^verbatim>\<open>self.accuracy_metrics\<close>.\<close>

definition print_statistics :: "ext \<Rightarrow> cls \<Rightarrow> nat \<Rightarrow> world \<Rightarrow> (error + unit) \<times> world" where
  "print_statistics x c e w =
     (case accuracy_metrics c of None \<Rightarrow> (Inl AttributeError, w)
      | Some am \<Rightarrow>
     (let label = (case am of None \<Rightarrow> ''Accuracy'' | Some s \<Rightarrow> s);
          gpu = (if cuda_is_available x then GpuUsed (take 2 (nvidia_smi x)) else GpuNA);
          t = self w in
     (case py_getitem (train_loss t) (- 1) of Inl err \<Rightarrow> (Inl err, w)
      | Inr trl \<Rightarrow>
     (case py_getitem (test_loss t) (- 1) of Inl err \<Rightarrow> (Inl err, w)
      | Inr tel \<Rightarrow>
      if compute_accuracy t then
        (case py_getitem (train_accuracy t) (- 1) of Inl err \<Rightarrow> (Inl err, w)
         | Inr tra \<Rightarrow>
        (case py_getitem (test_accuracy t) (- 1) of Inl err \<Rightarrow> (Inl err, w)
         | Inr tea \<Rightarrow>
           (Inr (),
            emit (Statistics (e + 1) (training_cycles t) (Around trl 4) (Around tel 4)
                    (Some (label, Around tra 4, Around tea 4)) gpu) w)))
      else
        (Inr (),
         emit (Statistics (e + 1) (training_cycles t) (Around trl 4) (Around tel 4)
                 None gpu) w)))))"

text \<open>
  The two loops of \<^verbatim>\<open>eval_model\<close>. The first runs over the items of
  \<^verbatim>\<open>self.test_loader\<close>, unpacks each into two and counts them in \<^verbatim>\<open>c\<close>; the second
  runs over \<^verbatim>\<open>range(len(self.X_test))\<close> and fetches each sample with \<^verbatim>\<open>dataloader\<close>.
  Both add up \<^verbatim>\<open>loss_[0]\<close> and, when accuracy is computed, \<^verbatim>\<open>loss_[1]\<close>.
\<close>

fun eval_loader ::
  "cls \<Rightarrow> world \<Rightarrow> nd list list \<Rightarrow> real \<times> real \<times> nat \<Rightarrow> error + real \<times> real \<times> nat" where
  "eval_loader c w [] acc = Inr acc"
| "eval_loader c w (item # items) (running_loss, running_acc, cnt) =
     (case item of
        [features, targets] \<Rightarrow>
          (case test_step c of None \<Rightarrow> Inl AttributeError
           | Some test \<Rightarrow>
          (case test features targets w of Inl e \<Rightarrow> Inl e
           | Inr loss \<Rightarrow>
          (case py_getitem loss 0 of Inl e \<Rightarrow> Inl e
           | Inr l0 \<Rightarrow>
             if compute_accuracy (self w) then
               (case py_getitem loss 1 of Inl e \<Rightarrow> Inl e
                | Inr l1 \<Rightarrow>
                    eval_loader c w items (running_loss + l0, running_acc + l1, cnt + 1))
             else eval_loader c w items (running_loss + l0, running_acc, cnt + 1))))
      | _ \<Rightarrow> Inl ValueError)"

fun eval_indices ::
  "cls \<Rightarrow> world \<Rightarrow> int list \<Rightarrow> real \<times> real \<Rightarrow> error + real \<times> real" where
  "eval_indices c w [] acc = Inr acc"
| "eval_indices c w (idx # rest) (running_loss, running_acc) =
     (case dataloader (self w) idx ''test'' of Inl e \<Rightarrow> Inl e
      | Inr (features, targets) \<Rightarrow>
     (case test_step c of None \<Rightarrow> Inl AttributeError
      | Some test \<Rightarrow>
     (case test features targets w of Inl e \<Rightarrow> Inl e
      | Inr loss \<Rightarrow>
     (case py_getitem loss 0 of Inl e \<Rightarrow> Inl e
      | Inr l0 \<Rightarrow>
        if compute_accuracy (self w) then
          (case py_getitem loss 1 of Inl e \<Rightarrow> Inl e
           | Inr l1 \<Rightarrow> eval_indices c w rest (running_loss + l0, running_acc + l1))
        else eval_indices c w rest (running_loss + l0, running_acc)))))"

text \<open>
  \<^verbatim>\<open>eval_model(self)\<close>, lines 224-256. \<^verbatim>\<open>self.net.eval()\<close> comes first; dividing the
  initial integer sum by a zero count raises \<^verbatim>\<open>ZeroDivisionError\<close>.
\<close>

definition eval_model :: "cls \<Rightarrow> world \<Rightarrow> (error + unit) \<times> world" where
  "eval_model c w =
     (case net (self w) of None \<Rightarrow> (Inl AttributeError, w)
      | Some n \<Rightarrow>
     (let w1 = w\<lparr>self := (self w)\<lparr>net := Some (n\<lparr>training := False\<rparr>)\<rparr>\<rparr> in
      if full_epoch (self w1) then
        (case eval_loader c w1 (test_loader (self w1)) (0, 0, 0) of Inl e \<Rightarrow> (Inl e, w1)
         | Inr (running_loss, running_acc, cnt) \<Rightarrow>
             if cnt = 0 then (Inl ZeroDivisionError, w1)
             else
               (let w2 = emit (EvalLoss (Around (running_loss / real cnt) 4)) w1 in
                (Inr (),
                 if compute_accuracy (self w2)
                 then emit (EvalIoU (Around (running_acc / real cnt) 4)) w2 else w2)))
      else
        (case X_test (self w1) of None \<Rightarrow> (Inl TypeError, w1)
         | Some X \<Rightarrow>
        (case nd_len X of Inl e \<Rightarrow> (Inl e, w1)
         | Inr m \<Rightarrow>
        (case eval_indices c w1 (map int [0..<m]) (0, 0) of Inl e \<Rightarrow> (Inl e, w1)
         | Inr (running_loss, running_acc) \<Rightarrow>
             if m = 0 then (Inl ZeroDivisionError, w1)
             else
               (let w2 = emit (EvalLoss (Around (running_loss / real m) 4)) w1 in
                (Inr (),
                 if compute_accuracy (self w2)
                 then emit (EvalIoU (Around (running_acc / real m) 4)) w2 else w2)))))))"

section \<open>Preprocessing and \<^verbatim>\<open>fit\<close>\<close>

fun is_ndarray :: "pyval \<Rightarrow> bool" where
  "is_ndarray (Ndarray d A) = True"
| "is_ndarray v = False"

fun is_tensor :: "pyval \<Rightarrow> bool" where
  "is_tensor (Tensor d A) = True"
| "is_tensor v = False"

text \<open>\<^verbatim>\<open>torch.from_numpy\<close>, \<^verbatim>\<open>.float()\<close>, \<^verbatim>\<open>.long()\<close> and \<^verbatim>\<open>len\<close> on these values.\<close>

fun from_numpy :: "pyval \<Rightarrow> error + pyval" where
  "from_numpy (Ndarray d A) = Inr (Tensor d A)"
| "from_numpy v = Inl TypeError"

fun to_float :: "pyval \<Rightarrow> error + pyval" where
  "to_float (Tensor d A) = Inr (Tensor Float A)"
| "to_float v = Inl AttributeError"

fun to_long :: "pyval \<Rightarrow> error + pyval" where
  "to_long (Tensor d A) = Inr (Tensor Long A)"
| "to_long v = Inl AttributeError"

fun pyval_len :: "pyval \<Rightarrow> error + nat" where
  "pyval_len (Ndarray d A) = nd_len A"
| "pyval_len (Tensor d A) = nd_len A"
| "pyval_len v = Inl TypeError"

text \<open>Applying a conversion to the four arrays in the order the source does.\<close>

fun convert4 ::
  "(pyval \<Rightarrow> error + pyval) \<Rightarrow> (pyval \<Rightarrow> error + pyval) \<Rightarrow> pyval \<times> pyval \<times> pyval \<times> pyval
    \<Rightarrow> error + pyval \<times> pyval \<times> pyval \<times> pyval" where
  "convert4 f g (images, labels, images_test, labels_test) =
     (case f images of Inl e \<Rightarrow> Inl e | Inr a \<Rightarrow>
     (case f images_test of Inl e \<Rightarrow> Inl e | Inr b \<Rightarrow>
     (case g labels of Inl e \<Rightarrow> Inl e | Inr c \<Rightarrow>
     (case g labels_test of Inl e \<Rightarrow> Inl e | Inr d \<Rightarrow> Inr (a, c, b, d)))))"

text \<open>
  \<^verbatim>\<open>preprocess_training_image_data\<close>, lines 76-105, applied to the list of its
  positional arguments, the receiver first. The function declares four parameters
  (\<^verbatim>\<open>self, labels_all, images_test_all, labels_test_all\<close>); any other number of
  arguments fails binding with \<^verbatim>\<open>TypeError\<close>. \<^verbatim>\<open>self\<close> is one of the four values
  that must all be numpy arrays or all be tensors.
\<close>

fun preprocess_training_image_data ::
  "ext \<Rightarrow> pyval list \<Rightarrow> error + pyval \<times> pyval \<times> pyval \<times> pyval \<times> int" where
  "preprocess_training_image_data x [self', labels_all, images_test_all, labels_test_all] =
     (let all_data = [self', labels_all, images_test_all, labels_test_all];
          all_numpy = list_all is_ndarray all_data;
          all_torch = list_all is_tensor all_data
      in if \<not> all_numpy \<and> \<not> all_torch then Inl TypeError
      else
        (case num_classes_from_labels x labels_all of Inl e \<Rightarrow> Inl e
         | Inr num_classes \<Rightarrow>
        (case check_image_dims x self' labels_all images_test_all labels_test_all num_classes of
           Inl e \<Rightarrow> Inl e
         | Inr checked \<Rightarrow>
        (case (if all_numpy then convert4 from_numpy from_numpy checked else Inr checked) of
           Inl e \<Rightarrow> Inl e
         | Inr torch4 \<Rightarrow>
        (case convert4 to_float (if 1 < num_classes then to_long else to_float) torch4 of
           Inl e \<Rightarrow> Inl e
         | Inr (images, labels, images_test, labels_test) \<Rightarrow>
             Inr (images, labels, images_test, labels_test, num_classes))))))"
| "preprocess_training_image_data x args = Inl TypeError"

text \<open>The arguments of \<^verbatim>\<open>fit\<close>; the \<open>kw\<close> fields are the recognised keyword options,
  \<open>None\<close> when the caller leaves one out.\<close>

record fit_args =
  arg_X_train :: pyval
  arg_y_train :: pyval
  arg_X_test :: pyval
  arg_y_test :: pyval
  arg_nb_class :: int
  arg_loss :: loss_arg
  arg_optimizer :: "string option"
  arg_training_cycles :: int
  arg_batch_size :: int
  arg_compute_accuracy :: bool
  arg_swa :: bool
  arg_perturb_weights :: pw
  kw_test_size :: "real option"
  kw_seed :: "int option"
  kw_memory_alloc :: "int option"
  kw_batch_seed :: "int option"
  kw_print_loss :: "int option"
  kw_accuracy_metrics :: "string option"
  kw_filename :: "string option"

text \<open>A call that gives only the training data: every default of the signature.\<close>

definition fit_defaults :: "pyval \<Rightarrow> pyval \<Rightarrow> fit_args" where
  "fit_defaults X y =
     \<lparr>arg_X_train = X, arg_y_train = y, arg_X_test = NoneVal, arg_y_test = NoneVal,
      arg_nb_class = 1, arg_loss = Token ''ce'', arg_optimizer = None,
      arg_training_cycles = 1000, arg_batch_size = 32, arg_compute_accuracy = False,
      arg_swa = False, arg_perturb_weights = PwBool False,
      kw_test_size = None, kw_seed = None, kw_memory_alloc = None, kw_batch_seed = None,
      kw_print_loss = None, kw_accuracy_metrics = None, kw_filename = None\<rparr>"

text \<open>Lines 273-286: the fields \<^verbatim>\<open>fit\<close> assigns on the object. \<^verbatim>\<open>self.net\<close> is not
  among them.\<close>

definition fit_configure :: "trainer \<Rightarrow> fit_args \<Rightarrow> trainer" where
  "fit_configure t a =
     t\<lparr>training_cycles := arg_training_cycles a,
       batch_size := arg_batch_size a,
       compute_accuracy := arg_compute_accuracy a,
       swa := arg_swa a,
       nb_class := Some (arg_nb_class a),
       optimizer := arg_optimizer a,
       perturb_weights := arg_perturb_weights a,
       filename := ''model'',
       print_loss := kw_print_loss a,
       train_loss := [], test_loss := [], train_accuracy := [], test_accuracy := []\<rparr>"

text \<open>Truth value and \<^verbatim>\<open>isinstance(_, bool)\<close> of a perturbation setting.\<close>

fun pw_truthy :: "pw \<Rightarrow> bool" where
  "pw_truthy (PwBool b) = b"
| "pw_truthy (PwDict a gamma e_p) = True"

fun pw_is_bool :: "pw \<Rightarrow> bool" where
  "pw_is_bool (PwBool b) = True"
| "pw_is_bool (PwDict a gamma e_p) = False"

text \<open>
  Lines 312-316: the local variable \<^verbatim>\<open>perturb_weights\<close> after the block. The test
  reads \<^verbatim>\<open>self.perturb_weights\<close>; the canonical schedule is assigned to the local
  variable only.
\<close>

definition fit_perturb_local :: "trainer \<Rightarrow> fit_args \<Rightarrow> pw" where
  "fit_perturb_local t a =
     (if pw_truthy (perturb_weights t) \<and> pw_is_bool (arg_perturb_weights a)
      then PwDict (1 / 100) (3 / 2) 50 else arg_perturb_weights a)"

text \<open>
  Lines 337-338: the local variable \<^verbatim>\<open>print_loss\<close>. It is bound (to 100) only when the
  caller gave no reporting period; \<open>None\<close> is the unbound variable.
\<close>

definition fit_print_loss_local :: "trainer \<Rightarrow> int option" where
  "fit_print_loss_local t = (case print_loss t of None \<Rightarrow> Some 100 | Some p \<Rightarrow> None)"

text \<open>
  Lines 326-335: both schedules, with the object's fields in the order the source
  assigns them.
\<close>

definition fit_schedules ::
  "(int \<Rightarrow> nat \<Rightarrow> nat list) \<Rightarrow> int \<Rightarrow> int \<Rightarrow> pyval \<Rightarrow> pyval \<Rightarrow> world
    \<Rightarrow> (error + unit) \<times> world" where
  "fit_schedules perm seed cycles Xtr Xte w =
     (case pyval_len Xtr of Inl e \<Rightarrow> (Inl e, w) | Inr n \<Rightarrow>
     (case repeat_truncate n cycles of Inl e \<Rightarrow> (Inl e, w) | Inr tr \<Rightarrow>
     (let w1 = w\<lparr>self := (self w)\<lparr>batch_idx_train := NdArray tr\<rparr>\<rparr> in
     (case pyval_len Xte of Inl e \<Rightarrow> (Inl e, w1) | Inr m \<Rightarrow>
     (case repeat_truncate m cycles of Inl e \<Rightarrow> (Inl e, w1) | Inr te \<Rightarrow>
        (Inr (),
         w1\<lparr>self := (self w1)\<lparr>batch_idx_train := NdArray (sk_shuffle perm seed tr),
                                batch_idx_test := NdArray (sk_shuffle perm seed te)\<rparr>\<rparr>))))))"

text \<open>One pass of the loop body, lines 352-359, and the loop over the cycle numbers.\<close>

definition fit_cycle ::
  "ext \<Rightarrow> cls \<Rightarrow> pw \<Rightarrow> int option \<Rightarrow> int \<Rightarrow> nat \<Rightarrow> world \<Rightarrow> (error + unit) \<times> world" where
  "fit_cycle x c perturb_local print_loss_local cycles e =
     and_then (call_step c [e]) (\<lambda>u.
     and_then (\<lambda>w. if swa (self w) then save_running_weights e w else (Inr (), w)) (\<lambda>u.
     and_then (\<lambda>w. if pw_truthy perturb_local then weight_perturbation x e w
                    else (Inr (), w)) (\<lambda>u w.
       case report_due print_loss_local cycles e of Inl err \<Rightarrow> (Inl err, w)
       | Inr due \<Rightarrow> if due then print_statistics x c e w else (Inr (), w))))"

fun fit_loop ::
  "ext \<Rightarrow> cls \<Rightarrow> pw \<Rightarrow> int option \<Rightarrow> int \<Rightarrow> nat list \<Rightarrow> world \<Rightarrow> (error + unit) \<times> world" where
  "fit_loop x c perturb_local print_loss_local cycles [] w = (Inr (), w)"
| "fit_loop x c perturb_local print_loss_local cycles (e # es) w =
     (case fit_cycle x c perturb_local print_loss_local cycles e w of
        (Inl err, w') \<Rightarrow> (Inl err, w')
      | (Inr u, w') \<Rightarrow> fit_loop x c perturb_local print_loss_local cycles es w')"

text \<open>
  Lines 306-371, after the data have been preprocessed: class-count check, perturbation
  setting, loss, schedules, the loop, the snapshot file, the evaluation, the averaged
  weights and the plot. \<open>net0\<close> is the local variable \<^verbatim>\<open>net\<close>. Local variables
  that nothing reads afterwards (\<^verbatim>\<open>weights\<close>, \<^verbatim>\<open>params\<close>, \<^verbatim>\<open>optimizer\<close>,
  \<^verbatim>\<open>accuracy_metrics\<close>) are left out.
\<close>

definition fit_train ::
  "ext \<Rightarrow> cls \<Rightarrow> fit_args \<Rightarrow> net \<Rightarrow> pyval \<Rightarrow> pyval \<Rightarrow> int \<Rightarrow> world \<Rightarrow> (error + net) \<times> world" where
  "fit_train x c a net0 Xtr Xte nb_classes w =
     (if Some nb_classes \<noteq> nb_class (self w) then (Inl AssertionError, w)
      else
     (let perturb_local = fit_perturb_local (self w) a;
          w1 = (if pw_truthy (perturb_weights (self w))
                then emit (Message ''To use time-dependent weights perturbation, turn off the batch normalization layers'') w
                else w) in
     (case select_loss (arg_loss a) (Some (arg_nb_class a)) of Inl e \<Rightarrow> (Inl e, w1)
      | Inr crit \<Rightarrow>
     (let w2 = w1\<lparr>self := (self w1)\<lparr>criterion := Some crit\<rparr>\<rparr>;
          seed = (case kw_batch_seed a of None \<Rightarrow> 1 | Some s \<Rightarrow> s) in
     (case fit_schedules (rng_permutation x) seed (arg_training_cycles a) Xtr Xte w2 of
        (Inl e, w3) \<Rightarrow> (Inl e, w3)
      | (Inr u, w3) \<Rightarrow>
     (let print_loss_local = fit_print_loss_local (self w3);
          w4 = w3\<lparr>self := (self w3)\<lparr>filename :=
                  (case kw_filename a of None \<Rightarrow> ''./model'' | Some f \<Rightarrow> f)\<rparr>\<rparr> in
     (case fit_loop x c perturb_local print_loss_local (arg_training_cycles a)
             [0..<nat (training_cycles (self w4))] w4 of
        (Inl e, w5) \<Rightarrow> (Inl e, w5)
      | (Inr u, w5) \<Rightarrow>
     (let w6 = w5\<lparr>files := (files w5)(filename (self w5) @ ''.tar'' \<mapsto> state_dict net0)\<rparr> in
     (case eval_model c w6 of (Inl e, w7) \<Rightarrow> (Inl e, w7)
      | (Inr u, w7) \<Rightarrow>
     (case (if arg_swa a then
              (let w8 = emit (Message ''Performing stochastic weight averaging...'') w7 in
              (case average_weights c of None \<Rightarrow> (Inl AttributeError, w8)
               | Some average \<Rightarrow>
              (case average (running_weights (self w8)) of Inl e \<Rightarrow> (Inl e, w8)
               | Inr sd \<Rightarrow>
              (case eval_model c w8 of (Inl e, w9) \<Rightarrow> (Inl e, w9)
               | (Inr u, w9) \<Rightarrow> (Inr (net0\<lparr>state_dict := sd\<rparr>), w9)))))
            else (Inr net0, w7)) of
        (Inl e, w9) \<Rightarrow> (Inl e, w9)
      | (Inr net1, w9) \<Rightarrow>
     (case plot_losses c of None \<Rightarrow> (Inl AttributeError, w9)
      | Some plot \<Rightarrow>
     (case plot (train_loss (self w9)) (test_loss (self w9)) w9 of
        (Inl e, w10) \<Rightarrow> (Inl e, w10)
      | (Inr u, w10) \<Rightarrow> (Inr net1, w10)))))))))))))"

text \<open>
  Lines 298-301: the four data sets, in the order \<^verbatim>\<open>X_train, X_test, y_train, y_test\<close>.
  Without test data the training data are split, and the split can raise.
\<close>

definition fit_set_data :: "ext \<Rightarrow> fit_args \<Rightarrow> error + pyval \<times> pyval \<times> pyval \<times> pyval" where
  "fit_set_data x a =
     (if arg_X_test a = NoneVal \<or> arg_y_test a = NoneVal
      then train_test_split x (arg_X_train a) (arg_y_train a)
             (case kw_test_size a of None \<Rightarrow> 15 / 100 | Some f \<Rightarrow> f)
             (case kw_seed a of None \<Rightarrow> 1 | Some s \<Rightarrow> s)
      else Inr (arg_X_train a, arg_X_test a, arg_y_train a, arg_y_test a))"

text \<open>
  \<^verbatim>\<open>fit\<close>, lines 258-371. The call on line 303 passes six arguments besides the
  receiver to \<^verbatim>\<open>preprocess_training_image_data\<close>.
\<close>

definition fit :: "ext \<Rightarrow> cls \<Rightarrow> fit_args \<Rightarrow> world \<Rightarrow> (error + net) \<times> world" where
  "fit x c a w =
     (let w1 = w\<lparr>self := fit_configure (self w) a\<rparr>;
          net0 = SegResNet x;
          w2 = (if device (self w1) = ''cpu''
                then emit (Warning ''No GPU found. The training can be EXTREMELY slow'') w1
                else w1)
      in case fit_set_data x a of Inl e \<Rightarrow> (Inl e, w2)
         | Inr (X_train', X_test', y_train', y_test') \<Rightarrow>
        (case preprocess_training_image_data x
                [TrainerObj, X_train', y_train', X_test', y_test', IntVal (arg_batch_size a),
                 IntVal (case kw_memory_alloc a of None \<Rightarrow> 4 | Some m \<Rightarrow> m)] of
           Inl e \<Rightarrow> (Inl e, w2)
         | Inr (Xtr, ytr, Xte, yte, nb_classes) \<Rightarrow>
             fit_train x c a net0 Xtr Xte nb_classes w2))"

section \<open>Concrete objects for the closed instances\<close>

text \<open>
  A process in which one trainer has just been constructed on a machine without a GPU,
  with generator state 0. Iterating the empty \<^verbatim>\<open>TensorDataset()\<close> yields empty tuples
  without end; the first of them already fails to unpack, so one stands for all.
\<close>

definition fresh_world :: world where
  "fresh_world =
     \<lparr>self = new_trainer ''cpu'' [[]], stdout = [], files = Map.empty, torch_rng = 0\<rparr>"

text \<open>
  A subclass whose evaluation step reports the single value of a one-entry feature
  array as the loss, \<open>first_value\<close> being that value.
\<close>

fun reading_step :: "nd \<Rightarrow> nd \<Rightarrow> world \<Rightarrow> error + real list" where
  "reading_step (Arr [Scalar v]) targets w = Inr [v]"
| "reading_step features targets w = Inl ValueError"

fun first_value :: "nd \<times> nd \<Rightarrow> real" where
  "first_value (Arr (Scalar v # vs), targets) = v"
| "first_value p = 0"

definition reading_class :: cls where
  "reading_class = Trainer_class\<lparr>test_step := Some reading_step\<rparr>"

text \<open>
  A trainer with a model attached, two test samples of one channel each (values 2 and
  4), three training cycles and the test schedule \<open>[0, 0, 1]\<close>.
\<close>

definition two_sample_world :: world where
  "two_sample_world =
     fresh_world\<lparr>self := (self fresh_world)
       \<lparr>net := Some \<lparr>state_dict = [], training = True\<rparr>,
        full_epoch := False,
        training_cycles := 3,
        batch_idx_test := NdArray [0, 0, 1],
        X_test := Some (Arr [Arr [Scalar 2], Arr [Scalar 4]]),
        y_test := Some (Arr [Arr [Scalar 0], Arr [Scalar 1]]),
        test_loader := [[Arr [Scalar 2], Arr [Scalar 0]], [Arr [Scalar 4], Arr [Scalar 1]]]\<rparr>\<rparr>"

text \<open>
  Sampled evaluation as the specification words it (section 4.7): one draw per entry of
  the schedule built for the test partition, averaged over their number. Only compared
  with \<open>eval_model\<close>; nothing in the source computes it.
\<close>

fun spec_draws ::
  "(nd \<Rightarrow> nd \<Rightarrow> world \<Rightarrow> error + real list) \<Rightarrow> world \<Rightarrow> int list \<Rightarrow> error + real list" where
  "spec_draws test w [] = Inr []"
| "spec_draws test w (idx # rest) =
     (case dataloader (self w) idx ''test'' of Inl e \<Rightarrow> Inl e
      | Inr (features, targets) \<Rightarrow>
     (case test features targets w of Inl e \<Rightarrow> Inl e
      | Inr loss \<Rightarrow>
     (case py_getitem loss 0 of Inl e \<Rightarrow> Inl e
      | Inr l0 \<Rightarrow>
     (case spec_draws test w rest of Inl e \<Rightarrow> Inl e
      | Inr ls \<Rightarrow> Inr (l0 # ls)))))"

definition sampled_average_spec ::
  "(nd \<Rightarrow> nd \<Rightarrow> world \<Rightarrow> error + real list) \<Rightarrow> world \<Rightarrow> error + real" where
  "sampled_average_spec test w =
     (case spec_draws test w (idx_items (batch_idx_test (self w))) of Inl e \<Rightarrow> Inl e
      | Inr ls \<Rightarrow> if ls = [] then Inl ZeroDivisionError
                  else Inr (sum_list ls / real (length ls)))"


section \<open>Properties: loss selection and mini-batch access\<close>

text \<open>
  C3. The case table of \<^verbatim>\<open>select_loss\<close>: \<^verbatim>\<open>('ce', None)\<close> raises, \<^verbatim>\<open>('ce', 1)\<close> gives the
  binary loss, \<^verbatim>\<open>('ce', k)\<close> with \<open>k > 2\<close> the categorical loss, \<^verbatim>\<open>'mse'\<close> the squared
  error whatever the class count, a callable comes back as it was given, any other
  token raises \<^verbatim>\<open>NotImplementedError\<close>, and \<^verbatim>\<open>('ce', 2)\<close> reaches the callable test,
  fails it (a string is not callable) and raises \<^verbatim>\<open>NotImplementedError\<close>.
\<close>

theorem select_loss_table:
  "select_loss (Token ''ce'') None = Inl ValueError
   \<and> select_loss (Token ''ce'') (Some 1) = Inr BCEWithLogitsLoss
   \<and> (\<forall>k. 2 < k \<longrightarrow> select_loss (Token ''ce'') (Some k) = Inr CrossEntropyLoss)
   \<and> (\<forall>nb. select_loss (Token ''mse'') nb = Inr MSELoss)
   \<and> (\<forall>f nb. select_loss (Callable f) nb = Inr (AsGiven (Callable f)))
   \<and> (\<forall>s nb. s \<noteq> ''ce'' \<and> s \<noteq> ''mse''
         \<longrightarrow> select_loss (Token s) nb = Inl NotImplementedError)
   \<and> \<not> has_call (Token ''ce'')
   \<and> select_loss (Token ''ce'') (Some 2) = Inl NotImplementedError"
  by (simp add: select_loss_def)

theorem select_loss_table_witness:
  "select_loss (Token ''ce'') (Some 3) = Inr CrossEntropyLoss
   \<and> select_loss (Token ''bogus'') (Some 1) = Inl NotImplementedError
   \<and> select_loss (Token ''bogus'') None = Inl NotImplementedError"
  using select_loss_table by simp

lemma py_slice_to_prefix: "prefix (py_slice_to xs k) xs"
  by (simp add: py_slice_to_def take_is_prefix)

text \<open>
  C10. For every batch index \<open>b\<close> that the partition selected by the mode can be
  subscripted with, \<^verbatim>\<open>dataloader\<close> returns \<^verbatim>\<open>(X[b][:batch_size], y[b][:batch_size])\<close>:
  both parts are initial segments of the leading axis of the one sample at position
  \<open>b\<close>, so they never reach into another sample, whatever \<^verbatim>\<open>batch_size\<close> is.
\<close>

theorem dataloader_single_sample:
  assumes "(if mode = ''test'' then (X_test t, y_test t) else (X_train t, y_train t))
             = (Some X, Some Y)"
    and "nd_getitem X b = Inr (Arr cx)"
    and "nd_getitem Y b = Inr (Arr cy)"
  shows "dataloader t b mode
           = Inr (Arr (py_slice_to cx (batch_size t)), Arr (py_slice_to cy (batch_size t)))
         \<and> prefix (py_slice_to cx (batch_size t)) cx
         \<and> prefix (py_slice_to cy (batch_size t)) cy"
  using assms
  by (auto simp: dataloader_def subscript_slice_def py_slice_to_prefix split: if_splits)

theorem dataloader_single_sample_witness:
  "dataloader
     ((new_trainer ''cpu'' [])
        \<lparr>batch_size := 32,
         X_train := Some (Arr [Arr [Scalar 1], Arr [Scalar 2], Arr [Scalar 3]]),
         y_train := Some (Arr [Arr [Scalar 0], Arr [Scalar 1], Arr [Scalar 0]])\<rparr>)
     1 ''train''
   = Inr (Arr [Scalar 2], Arr [Scalar 1])"
  using dataloader_single_sample
    [of "''train''"
        "(new_trainer ''cpu'' [])
        \<lparr>batch_size := 32,
         X_train := Some (Arr [Arr [Scalar 1], Arr [Scalar 2], Arr [Scalar 3]]),
         y_train := Some (Arr [Arr [Scalar 0], Arr [Scalar 1], Arr [Scalar 0]])\<rparr>"
        "Arr [Arr [Scalar 1], Arr [Scalar 2], Arr [Scalar 3]]"
        "Arr [Arr [Scalar 0], Arr [Scalar 1], Arr [Scalar 0]]"
        1 "[Scalar 2]" "[Scalar 1]"]
  by (simp add: py_getitem_def py_slice_to_def)

section \<open>Properties: batch schedules\<close>

lemma div_eq_block:
  fixes p k i :: nat
  assumes "0 < k"
  shows "(p div k = i) = (i * k \<le> p \<and> p < i * k + k)"
proof
  assume e: "p div k = i"
  have "p div k * k \<le> p" by simp
  moreover have "p < k + k * (p div k)" using assms by (rule dividend_less_times_div)
  ultimately show "i * k \<le> p \<and> p < i * k + k"
    unfolding e[symmetric] by (simp add: mult.commute add.commute)
next
  assume "i * k \<le> p \<and> p < i * k + k"
  then have "k * i \<le> p" and "p < k * Suc i" by (simp_all add: mult.commute)
  then show "p div k = i" by (rule div_nat_eqI)
qed

lemma map_div_block:
  assumes "0 < k"
  shows "map (\<lambda>p. int (p div k)) [n * k..<n * k + k] = replicate k (int n)"
proof (rule nth_equalityI)
  show "length (map (\<lambda>p. int (p div k)) [n * k..<n * k + k]) = length (replicate k (int n))"
    by simp
next
  fix j assume "j < length (map (\<lambda>p. int (p div k)) [n * k..<n * k + k])"
  then have j: "j < k" by simp
  then have "(n * k + j) div k = n" using assms by (simp add: div_eq_block)
  with j show "map (\<lambda>p. int (p div k)) [n * k..<n * k + k] ! j = replicate k (int n) ! j"
    by simp
qed

lemma np_repeat_snoc: "np_repeat (xs @ [x]) k = np_repeat xs k @ replicate k x"
  by (simp add: np_repeat_def)

lemma upt_next_block: "[0..<Suc n * k] = [0..<n * k] @ [n * k..<n * k + k]"
proof -
  have "[0..<n * k + k] = [0..<n * k] @ [n * k..<n * k + k]"
    by (rule upt_add_eq_append) simp
  moreover have "Suc n * k = n * k + k" by simp
  ultimately show ?thesis by (simp only:)
qed

lemma np_repeat_arange:
  assumes "0 < k"
  shows "np_repeat (np_arange n) k = map (\<lambda>p. int (p div k)) [0..<n * k]"
proof (induction n)
  case 0
  show ?case by (simp add: np_repeat_def np_arange_def)
next
  case (Suc n)
  have "np_arange (Suc n) = np_arange n @ [int n]"
    by (simp add: np_arange_def)
  then have "np_repeat (np_arange (Suc n)) k
           = map (\<lambda>p. int (p div k)) [0..<n * k] @ replicate k (int n)"
    by (simp only: np_repeat_snoc Suc)
  also have "\<dots> = map (\<lambda>p. int (p div k)) ([0..<n * k] @ [n * k..<n * k + k])"
    by (simp only: map_append map_div_block[OF assms])
  finally show ?case by (simp only: upt_next_block)
qed

lemma min_shift:
  fixes m a k :: nat
  shows "min m (a + k) - a = min k (m - a)"
  by arith

lemma div_block_card:
  assumes "0 < k"
  shows "card {p. p < m \<and> p div k = i} = min k (m - i * k)"
proof -
  have "{p. p < m \<and> p div k = i} = {i * k..<min m (i * k + k)}"
    unfolding div_eq_block[OF assms] by auto
  then have "card {p. p < m \<and> p div k = i} = min m (i * k + k) - i * k"
    by simp
  then show ?thesis by (simp only: min_shift)
qed

lemma count_list_map:
  "count_list (map g xs) v = length (filter (\<lambda>p. g p = v) xs)"
  by (induction xs) simp_all

lemma count_list_div:
  assumes "0 < k"
  shows "count_list (map (\<lambda>p. int (p div k)) [0..<m]) (int i) = min k (m - i * k)"
proof -
  have "count_list (map (\<lambda>p. int (p div k)) [0..<m]) (int i)
      = length (filter (\<lambda>p. p div k = i) [0..<m])"
    by (simp add: count_list_map)
  also have "\<dots> = card (set (filter (\<lambda>p. p div k = i) [0..<m]))"
    by (rule distinct_card[symmetric]) simp
  also have "set (filter (\<lambda>p. p div k = i) [0..<m]) = {p. p < m \<and> p div k = i}"
    by auto
  finally show ?thesis by (simp only: div_block_card[OF assms])
qed

lemma sk_shuffle_mset:
  assumes "is_permutation perm"
  shows "mset (sk_shuffle perm seed xs) = mset xs"
proof -
  have "mset (sk_shuffle perm seed xs) = image_mset (\<lambda>i. xs ! i) (mset (perm seed (length xs)))"
    by (simp add: sk_shuffle_def)
  also have "\<dots> = image_mset (\<lambda>i. xs ! i) (mset [0..<length xs])"
    using assms by (simp add: is_permutation_def)
  also have "\<dots> = mset (map (\<lambda>i. xs ! i) [0..<length xs])" by simp
  also have "\<dots> = mset xs" by (simp only: map_nth)
  finally show ?thesis .
qed

lemma sk_shuffle_count:
  assumes "is_permutation perm"
  shows "count_list (sk_shuffle perm seed xs) v = count_list xs v"
proof -
  have "count (mset (sk_shuffle perm seed xs)) v = count (mset xs) v"
    by (simp only: sk_shuffle_mset[OF assms])
  then show ?thesis by (simp only: count_mset)
qed

lemma sk_shuffle_length:
  assumes "is_permutation perm"
  shows "length (sk_shuffle perm seed xs) = length xs"
proof -
  have "size (mset (sk_shuffle perm seed xs)) = size (mset xs)"
    by (simp only: sk_shuffle_mset[OF assms])
  then show ?thesis by (simp only: size_mset)
qed

lemma below_next_multiple:
  fixes C :: int
  assumes "0 < n"
  shows "C < int n * (C div int n + 1)"
proof -
  have a: "int n * (C div int n) + C mod int n = C" by (rule mult_div_mod_eq)
  have b: "C mod int n < int n" using assms by simp
  have c: "int n * (C div int n + 1) = int n * (C div int n) + int n"
    by (simp only: distrib_left mult_1_right)
  from a b c show ?thesis by linarith
qed

lemma nat_below_next_multiple:
  fixes C :: int
  assumes "0 < n" and "0 < C"
  shows "nat C \<le> n * (nat (C div int n) + 1)"
proof -
  have r: "0 \<le> C div int n" using assms by (simp add: pos_imp_zdiv_nonneg_iff)
  have "C < int n * (C div int n + 1)" using assms(1) by (rule below_next_multiple)
  also have "C div int n + 1 = int (nat (C div int n) + 1)" using r by simp
  finally have "C < int (n * (nat (C div int n) + 1))" by (simp only: of_nat_mult)
  then show ?thesis by linarith
qed

lemma repeat_truncate_eq:
  assumes "0 < n" and "0 < C"
  shows "repeat_truncate n C
         = Inr (map (\<lambda>p. int (p div (nat (C div int n) + 1))) [0..<nat C])"
proof -
  let ?k = "nat (C div int n) + 1"
  have r: "0 \<le> C div int n" using assms by (simp add: pos_imp_zdiv_nonneg_iff)
  have k: "nat (C div int n + 1) = ?k" using r by simp
  have le: "nat C \<le> n * ?k" using assms by (rule nat_below_next_multiple)
  have "py_slice_to (np_repeat (np_arange n) ?k) C
      = take (nat C) (map (\<lambda>p. int (p div ?k)) [0..<n * ?k])"
    using assms(2) by (simp add: py_slice_to_def np_repeat_arange)
  also have "\<dots> = map (\<lambda>p. int (p div ?k)) [0..<nat C]"
    using le by (simp add: take_map min_def)
  finally have "py_slice_to (np_repeat (np_arange n) ?k) C
      = map (\<lambda>p. int (p div ?k)) [0..<nat C]" .
  with assms(1) r k show ?thesis
    by (simp add: repeat_truncate_def Let_def)
qed

text \<open>
  C2 (as amended). For a partition of \<open>n \<ge> 1\<close> samples and \<open>C \<ge> 1\<close> cycles the schedule is
  built, has length exactly \<open>C\<close>, and index \<open>i\<close> occurs in it
  \<open>min (r + 1) (C - i * (r + 1))\<close> times, \<open>r = C div n\<close> (subtraction stopping at zero):
  \<^verbatim>\<open>repeat\<close> writes each index \<open>r + 1\<close> times in a row and the truncation cuts the tail,
  so an index occurs at most \<open>r + 1\<close> times, the low indices exactly \<open>r + 1\<close> times, and
  the high ones possibly never. The shuffle changes the order only.
\<close>

theorem batch_schedule_counts:
  assumes "is_permutation perm" and "0 < n" and "0 < C"
  shows "\<exists>s. batch_schedule perm seed n C = Inr s
           \<and> length s = nat C
           \<and> (\<forall>i. count_list s (int i)
                    = min (nat (C div int n) + 1) (nat C - i * (nat (C div int n) + 1)))
           \<and> (\<forall>i. count_list s (int i) \<le> nat (C div int n) + 1)"
  using assms
  by (simp add: batch_schedule_def repeat_truncate_eq sk_shuffle_count sk_shuffle_length
      count_list_div)

lemma rev_is_permutation: "is_permutation (\<lambda>seed m. rev [0..<m])"
  by (simp add: is_permutation_def)

theorem batch_schedule_counts_witness:
  "\<exists>s. batch_schedule (\<lambda>seed m. rev [0..<m]) 1 3 4 = Inr s \<and> length s = 4
         \<and> count_list s 0 = 2 \<and> count_list s 1 = 2 \<and> count_list s 2 = 0"
proof -
  obtain s where s: "batch_schedule (\<lambda>seed m. rev [0..<m]) 1 3 4 = Inr s"
      "length s = nat 4"
      "\<forall>i. count_list s (int i) = min (nat (4 div int 3) + 1) (nat 4 - i * (nat (4 div int 3) + 1))"
    using batch_schedule_counts[OF rev_is_permutation, of 3 4 1] by auto
  have "count_list s 0 = 2" using spec[OF s(3), of 0] by simp
  moreover have "count_list s 1 = 2" using spec[OF s(3), of 1] by simp
  moreover have "count_list s 2 = 0" using spec[OF s(3), of 2] by simp
  ultimately show ?thesis using s(1,2) by simp
qed

text \<open>
  With three samples and four cycles under the reversing generator the schedule is
  \<open>[1, 1, 0, 0]\<close>: index 2 never occurs, although \<open>4 div 3 = 1\<close>.
\<close>

lemma reversed_schedule_3_4: "batch_schedule (\<lambda>seed m. rev [0..<m]) 1 3 4 = Inr [1, 1, 0, 0]"
  by code_simp

theorem batch_schedule_coverage_counterexample:
  "is_permutation (\<lambda>seed m. rev [0..<m])
   \<and> batch_schedule (\<lambda>seed m. rev [0..<m]) 1 3 4 = Inr [1, 1, 0, 0]
   \<and> count_list [1, 1, 0, 0 :: int] 2 = 0
   \<and> (4 :: int) div 3 = 1"
  by (simp add: rev_is_permutation reversed_schedule_3_4)

text \<open>What lines 326-335 leave on the object are these schedules, for both partitions.\<close>

lemma fit_schedules_stores:
  assumes "fst (fit_schedules perm seed C Xtr Xte w) = Inr ()"
  shows "\<exists>n m tr te. pyval_len Xtr = Inr n \<and> batch_schedule perm seed n C = Inr tr
           \<and> pyval_len Xte = Inr m \<and> batch_schedule perm seed m C = Inr te
           \<and> batch_idx_train (self (snd (fit_schedules perm seed C Xtr Xte w))) = NdArray tr
           \<and> batch_idx_test (self (snd (fit_schedules perm seed C Xtr Xte w))) = NdArray te"
  using assms
  by (auto simp: fit_schedules_def batch_schedule_def Let_def split: sum.splits)

section \<open>Properties: what a call of \<^verbatim>\<open>fit\<close> runs into\<close>

lemma step_body_fails:
  "snd (step c w) = w \<and> (fst (step c w) = Inl TypeError \<or> fst (step c w) = Inl IndexError)"
  by (cases "batch_idx_train (self w)") (simp_all add: step_def)

text \<open>
  C9 (as amended). For every cycle number \<open>e\<close>, the call \<^verbatim>\<open>self.step(e)\<close> fails before
  any loss is recorded, leaving the state as it was; the error is a \<^verbatim>\<open>TypeError\<close> from
  binding the argument, since \<^verbatim>\<open>step\<close> declares no parameter besides \<^verbatim>\<open>self\<close>. Class
  \<^verbatim>\<open>Trainer\<close> defines neither \<^verbatim>\<open>train_step\<close> nor \<^verbatim>\<open>test_step\<close>.
\<close>

theorem step_call_arity:
  "call_step c [e] w = (Inl TypeError, w)
   \<and> train_step Trainer_class = None \<and> test_step Trainer_class = None"
  by (simp add: call_step_def Trainer_class_def)

theorem step_attribute_error_counterexample:
  "call_step Trainer_class [0] fresh_world = (Inl TypeError, fresh_world)
   \<and> TypeError \<noteq> AttributeError"
  by (simp add: call_step_def)

lemma fit_outcome:
  "fit x c a w =
     (case fit_set_data x a of Inl e \<Rightarrow> Inl e | Inr d \<Rightarrow> Inl TypeError,
      if device (self w) = ''cpu''
      then emit (Warning ''No GPU found. The training can be EXTREMELY slow'')
             (w\<lparr>self := fit_configure (self w) a\<rparr>)
      else w\<lparr>self := fit_configure (self w) a\<rparr>)"
  by (simp add: fit_def Let_def fit_configure_def split: sum.splits prod.splits)

lemma fit_set_data_returns:
  "fit_set_data (x\<lparr>train_test_split := (\<lambda>X y test_size seed. Inr (split X y test_size seed))\<rparr>) a
   = Inr (if arg_X_test a = NoneVal \<or> arg_y_test a = NoneVal
          then split (arg_X_train a) (arg_y_train a)
                 (case kw_test_size a of None \<Rightarrow> 15 / 100 | Some f \<Rightarrow> f)
                 (case kw_seed a of None \<Rightarrow> 1 | Some s \<Rightarrow> s)
          else (arg_X_train a, arg_X_test a, arg_y_train a, arg_y_test a))"
  by (simp add: fit_set_data_def)

text \<open>
  C1. No call of \<^verbatim>\<open>fit\<close> returns a model: it raises the split's own error when the
  data cannot be split, and \<^verbatim>\<open>TypeError\<close> on line 303 in every other case, that is,
  whenever the split returns (whatever it returns) or test data are given. The
  end-to-end scenario (200 samples, which the split divides into 170 and 30, 60 cycles,
  batch size 1, no averaging, no perturbation) is such a case. No file is written and
  the loss sequences stay empty.
\<close>

theorem fit_raises_type_error:
  "fst (fit x c a w) = (case fit_set_data x a of Inl e \<Rightarrow> Inl e | Inr d \<Rightarrow> Inl TypeError)
   \<and> fst (fit (x\<lparr>train_test_split := (\<lambda>X y test_size seed. Inr (split X y test_size seed))\<rparr>)
            c a w) = Inl TypeError
   \<and> fst (fit x c (a\<lparr>arg_X_test := Tensor d1 A1, arg_y_test := Tensor d2 A2\<rparr>) w) = Inl TypeError
   \<and> isl (fst (fit x c a w))
   \<and> files (snd (fit x c a w)) = files w
   \<and> train_loss (self (snd (fit x c a w))) = []
   \<and> test_loss (self (snd (fit x c a w))) = []"
proof -
  have a: "fst (fit x c a w) = (case fit_set_data x a of Inl e \<Rightarrow> Inl e | Inr d \<Rightarrow> Inl TypeError)"
    by (simp add: fit_outcome)
  have b: "fst (fit (x\<lparr>train_test_split := (\<lambda>X y test_size seed. Inr (split X y test_size seed))\<rparr>)
            c a w) = Inl TypeError"
    by (simp only: fit_outcome fit_set_data_returns fst_conv sum.case)
  have c: "fst (fit x c (a\<lparr>arg_X_test := Tensor d1 A1, arg_y_test := Tensor d2 A2\<rparr>) w)
            = Inl TypeError"
    by (simp add: fit_outcome fit_set_data_def)
  have d: "isl (fst (fit x c a w))"
    by (simp add: a split: sum.splits)
  have e: "files (snd (fit x c a w)) = files w
      \<and> train_loss (self (snd (fit x c a w))) = []
      \<and> test_loss (self (snd (fit x c a w))) = []"
    by (simp add: fit_outcome fit_configure_def emit_def)
  from a b c d e show ?thesis by blast
qed

text \<open>
  C5. With \<^verbatim>\<open>perturb_weights=True\<close> the object keeps the flag \<^verbatim>\<open>True\<close>, the canonical
  schedule lands in the local variable only, and \<^verbatim>\<open>weight_perturbation\<close>, which the
  loop then calls on every cycle, raises \<^verbatim>\<open>TypeError\<close> on every cycle without touching
  a parameter.
\<close>

theorem perturbation_default_type_error:
  "perturb_weights (fit_configure t (a\<lparr>arg_perturb_weights := PwBool True\<rparr>)) = PwBool True
   \<and> fit_perturb_local (fit_configure t (a\<lparr>arg_perturb_weights := PwBool True\<rparr>))
         (a\<lparr>arg_perturb_weights := PwBool True\<rparr>) = PwDict (1 / 100) (3 / 2) 50
   \<and> weight_perturbation x e
         (w\<lparr>self := fit_configure t (a\<lparr>arg_perturb_weights := PwBool True\<rparr>)\<rparr>)
       = (Inl TypeError, w\<lparr>self := fit_configure t (a\<lparr>arg_perturb_weights := PwBool True\<rparr>)\<rparr>)"
  by (simp add: fit_configure_def fit_perturb_local_def weight_perturbation_def)

text \<open>
  C6. With 100 training cycles and averaging enabled on a freshly constructed trainer,
  \<^verbatim>\<open>fit\<close> leaves \<^verbatim>\<open>self.net\<close> at \<^verbatim>\<open>None\<close>; cycle 69 stores nothing, and cycle 70, the
  first of the window, raises \<^verbatim>\<open>AttributeError\<close> instead of filling slot 0. The method
  \<^verbatim>\<open>average_weights\<close> that is to produce the mean does not exist in the class.
\<close>

theorem swa_capture_attribute_error:
  "net (fit_configure (new_trainer dev ds) (a\<lparr>arg_training_cycles := 100, arg_swa := True\<rparr>)) = None
   \<and> save_running_weights 69
         (w\<lparr>self := fit_configure (new_trainer dev ds) (a\<lparr>arg_training_cycles := 100, arg_swa := True\<rparr>)\<rparr>)
       = (Inr (), w\<lparr>self := fit_configure (new_trainer dev ds) (a\<lparr>arg_training_cycles := 100, arg_swa := True\<rparr>)\<rparr>)
   \<and> save_running_weights 70
         (w\<lparr>self := fit_configure (new_trainer dev ds) (a\<lparr>arg_training_cycles := 100, arg_swa := True\<rparr>)\<rparr>)
       = (Inl AttributeError,
          w\<lparr>self := fit_configure (new_trainer dev ds) (a\<lparr>arg_training_cycles := 100, arg_swa := True\<rparr>)\<rparr>)
   \<and> average_weights Trainer_class = None"
  by (simp add: fit_configure_def new_trainer_def save_running_weights_def Trainer_class_def)

text \<open>
  C8. Without a caller-supplied period the local variable \<^verbatim>\<open>print_loss\<close> is 100. With
  one (here 10) it is never bound, and the reporting condition raises
  \<^verbatim>\<open>UnboundLocalError\<close> on every cycle. \<^verbatim>\<open>print_statistics\<close> itself raises
  \<^verbatim>\<open>AttributeError\<close> on its first statement, so class \<^verbatim>\<open>Trainer\<close> never prints a
  statistics line.
\<close>

theorem report_period_unbound:
  "fit_print_loss_local (fit_configure t (a\<lparr>kw_print_loss := None\<rparr>)) = Some 100
   \<and> fit_print_loss_local (fit_configure t (a\<lparr>kw_print_loss := Some 10\<rparr>)) = None
   \<and> report_due (fit_print_loss_local (fit_configure t (a\<lparr>kw_print_loss := Some 10\<rparr>))) cycles e
       = Inl UnboundLocalError
   \<and> print_statistics x Trainer_class e w = (Inl AttributeError, w)"
  by (simp add: fit_print_loss_local_def fit_configure_def report_due_def print_statistics_def
      Trainer_class_def)

section \<open>Properties: final evaluation\<close>

lemma py_getitem_first: "py_getitem (l # r) 0 = Inr l"
  by (simp add: py_getitem_def)

lemma py_getitem_second: "r \<noteq> [] \<Longrightarrow> py_getitem (l # r) 1 = Inr (hd r)"
  by (cases r) (simp_all add: py_getitem_def)

lemma eval_indices_sum:
  assumes "test_step c = Some test"
    and "map (\<lambda>i. dataloader (self w) i ''test'') idxs = map Inr items"
    and "\<forall>p\<in>set items. test (fst p) (snd p) w = Inr (loss p # rest p)
           \<and> (compute_accuracy (self w) \<longrightarrow> rest p \<noteq> [])"
  shows "eval_indices c w idxs (rl, ra)
         = Inr (rl + sum_list (map loss items),
                if compute_accuracy (self w) then ra + sum_list (map (\<lambda>p. hd (rest p)) items)
                else ra)"
  using assms(2,3)
proof (induction idxs arbitrary: items rl ra)
  case Nil
  then show ?case by simp
next
  case (Cons i idxs)
  then obtain p ps where items: "items = p # ps" by (cases items) auto
  obtain f t where p: "p = (f, t)" by (cases p)
  from Cons.prems(1) items p have d: "dataloader (self w) i ''test'' = Inr (f, t)"
    and tl: "map (\<lambda>i. dataloader (self w) i ''test'') idxs = map Inr ps" by simp_all
  from Cons.prems(2) items p have t: "test f t w = Inr (loss p # rest p)"
    and r: "compute_accuracy (self w) \<longrightarrow> rest p \<noteq> []"
    and rest: "\<forall>p\<in>set ps. test (fst p) (snd p) w = Inr (loss p # rest p)
           \<and> (compute_accuracy (self w) \<longrightarrow> rest p \<noteq> [])" by auto
  show ?case
    using d t r assms(1) Cons.IH[OF tl rest]
    by (simp add: items py_getitem_first py_getitem_second add.assoc)
qed

lemma eval_loader_sum:
  assumes "test_step c = Some test"
    and "\<forall>p\<in>set items. test (fst p) (snd p) w = Inr (loss p # rest p)
           \<and> (compute_accuracy (self w) \<longrightarrow> rest p \<noteq> [])"
  shows "eval_loader c w (map (\<lambda>(f, t). [f, t]) items) (rl, ra, cnt)
         = Inr (rl + sum_list (map loss items),
                if compute_accuracy (self w) then ra + sum_list (map (\<lambda>p. hd (rest p)) items)
                else ra,
                cnt + length items)"
  using assms(2)
proof (induction items arbitrary: rl ra cnt)
  case Nil
  then show ?case by simp
next
  case (Cons p ps)
  obtain f t where p: "p = (f, t)" by (cases p)
  from Cons.prems p have t: "test f t w = Inr (loss p # rest p)"
    and r: "compute_accuracy (self w) \<longrightarrow> rest p \<noteq> []"
    and rest: "\<forall>p\<in>set ps. test (fst p) (snd p) w = Inr (loss p # rest p)
           \<and> (compute_accuracy (self w) \<longrightarrow> rest p \<noteq> [])" by auto
  show ?case
    using t r assms(1) Cons.IH[OF rest]
    by (simp add: p py_getitem_first py_getitem_second add.assoc)
qed


lemma eval_model_unfold:
  assumes "net (self w) = Some n"
    and "w1 = w\<lparr>self := (self w)\<lparr>net := Some (n\<lparr>training := False\<rparr>)\<rparr>\<rparr>"
  shows "eval_model c w =
      (if full_epoch (self w) then
        (case eval_loader c w1 (test_loader (self w)) (0, 0, 0) of Inl e \<Rightarrow> (Inl e, w1)
         | Inr (running_loss, running_acc, cnt) \<Rightarrow>
             if cnt = 0 then (Inl ZeroDivisionError, w1)
             else
                (Inr (),
                 if compute_accuracy (self w)
                 then emit (EvalIoU (Around (running_acc / real cnt) 4))
                        (emit (EvalLoss (Around (running_loss / real cnt) 4)) w1)
                 else emit (EvalLoss (Around (running_loss / real cnt) 4)) w1))
      else
        (case X_test (self w) of None \<Rightarrow> (Inl TypeError, w1)
         | Some X \<Rightarrow>
        (case nd_len X of Inl e \<Rightarrow> (Inl e, w1)
         | Inr m \<Rightarrow>
        (case eval_indices c w1 (map int [0..<m]) (0, 0) of Inl e \<Rightarrow> (Inl e, w1)
         | Inr (running_loss, running_acc) \<Rightarrow>
             if m = 0 then (Inl ZeroDivisionError, w1)
             else
                (Inr (),
                 if compute_accuracy (self w)
                 then emit (EvalIoU (Around (running_acc / real m) 4))
                        (emit (EvalLoss (Around (running_loss / real m) 4)) w1)
                 else emit (EvalLoss (Around (running_loss / real m) 4)) w1)))))"
proof -
  have f: "full_epoch (self w1) = full_epoch (self w)"
    "test_loader (self w1) = test_loader (self w)"
    "X_test (self w1) = X_test (self w)"
    "\<And>x. compute_accuracy (self (emit x w1)) = compute_accuracy (self w)"
    by (simp_all add: assms(2) emit_def)
  show ?thesis
    unfolding eval_model_def assms(1) option.case Let_def assms(2)[symmetric] f ..
qed

lemma stdout_emit: "stdout (emit x w) = stdout w @ [x]"
  by (simp add: emit_def)

text \<open>
  C4 (as amended). On a trainer with a model and an evaluation step, \<^verbatim>\<open>eval_model\<close>
  visits a fixed list of mini-batches once each and prints the sum of their losses
  divided by the length of that list: in full-epoch mode the list is the items of
  \<^verbatim>\<open>test_loader\<close>, otherwise it is \<^verbatim>\<open>dataloader(idx, 'test')\<close> for
  \<open>idx = 0, ..., len(X_test) - 1\<close>. Neither mode reads \<^verbatim>\<open>training_cycles\<close> or a batch
  schedule.
\<close>

theorem eval_model_averages:
  assumes "net (self w) = Some n" and "test_step c = Some test"
    and "w1 = w\<lparr>self := (self w)\<lparr>net := Some (n\<lparr>training := False\<rparr>)\<rparr>\<rparr>"
    and "items \<noteq> []"
    and "if full_epoch (self w) then test_loader (self w) = map (\<lambda>(f, t). [f, t]) items
         else (\<exists>X. X_test (self w) = Some (Arr X)
                 \<and> map (\<lambda>i. dataloader (self w1) (int i) ''test'') [0..<length X]
                   = map Inr items)"
    and "\<forall>p\<in>set items. test (fst p) (snd p) w1 = Inr (loss p # rest p)
           \<and> (compute_accuracy (self w) \<longrightarrow> rest p \<noteq> [])"
  shows "fst (eval_model c w) = Inr ()
       \<and> stdout (snd (eval_model c w))
         = stdout w @ EvalLoss (Around (sum_list (map loss items) / real (length items)) 4)
             # (if compute_accuracy (self w)
                then [EvalIoU (Around (sum_list (map (\<lambda>p. hd (rest p)) items)
                                        / real (length items)) 4)]
                else [])"
proof -
  have out: "stdout w1 = stdout w" and ca: "compute_accuracy (self w1) = compute_accuracy (self w)"
    by (simp_all add: assms(3))
  have acc: "\<forall>p\<in>set items. test (fst p) (snd p) w1 = Inr (loss p # rest p)
           \<and> (compute_accuracy (self w1) \<longrightarrow> rest p \<noteq> [])"
    using assms(6) by (simp only: ca)
  show ?thesis
  proof (cases "full_epoch (self w)")
    case True
    with assms(5) have tl: "test_loader (self w) = map (\<lambda>(f, t). [f, t]) items" by simp
    have loop: "eval_loader c w1 (test_loader (self w)) (0, 0, 0)
       = Inr (sum_list (map loss items),
              if compute_accuracy (self w) then sum_list (map (\<lambda>p. hd (rest p)) items) else 0,
              length items)"
      using eval_loader_sum[OF assms(2) acc, of 0 0 0] by (simp add: tl ca)
    show ?thesis
      using True assms(4)
      by (simp add: eval_model_unfold[OF assms(1,3)] loop stdout_emit out)
  next
    case False
    with assms(5) obtain X where X: "X_test (self w) = Some (Arr X)"
      and m: "map (\<lambda>i. dataloader (self w1) (int i) ''test'') [0..<length X] = map Inr items"
      by auto
    have len: "length X = length items" using arg_cong[OF m, of length] by simp
    have m': "map (\<lambda>i. dataloader (self w1) i ''test'') (map int [0..<length X]) = map Inr items"
      using m by (simp add: comp_def)
    have loop: "eval_indices c w1 (map int [0..<length X]) (0, 0)
       = Inr (sum_list (map loss items),
              if compute_accuracy (self w) then sum_list (map (\<lambda>p. hd (rest p)) items) else 0)"
      using eval_indices_sum[OF assms(2) m' acc, of 0 0] by (simp add: ca)
    show ?thesis
      using False assms(4) len
      by (simp add: eval_model_unfold[OF assms(1,3)] X loop[unfolded len] stdout_emit out)
  qed
qed


theorem eval_model_averages_witness:
  "fst (eval_model reading_class two_sample_world) = Inr ()
   \<and> stdout (snd (eval_model reading_class two_sample_world)) = [EvalLoss (Around 3 4)]"
  using eval_model_averages
    [of two_sample_world "\<lparr>state_dict = [], training = True\<rparr>" reading_class reading_step
        "two_sample_world\<lparr>self := (self two_sample_world)
           \<lparr>net := Some (\<lparr>state_dict = [], training = True\<rparr>\<lparr>training := False\<rparr>)\<rparr>\<rparr>"
        "[(Arr [Scalar 2], Arr [Scalar 0]), (Arr [Scalar 4], Arr [Scalar 1])]"
        first_value "\<lambda>p. []"]
  by (simp add: two_sample_world_def fresh_world_def new_trainer_def reading_class_def
      dataloader_def subscript_slice_def py_getitem_def py_slice_to_def upt_rec)

text \<open>
  Two test samples with losses 2 and 4, three training cycles, test schedule
  \<open>[0, 0, 1]\<close>: both modes print the average 3 over the two samples; the average over
  the three scheduled draws would be 8/3.
\<close>

lemma two_sample_sampled_mode:
  "eval_model reading_class two_sample_world
   = (Inr (), emit (EvalLoss (Around 3 4))
        (two_sample_world\<lparr>self := (self two_sample_world)
           \<lparr>net := Some \<lparr>state_dict = [], training = False\<rparr>\<rparr>\<rparr>))"
  by (simp add: eval_model_def two_sample_world_def fresh_world_def new_trainer_def
      reading_class_def dataloader_def subscript_slice_def py_getitem_def py_slice_to_def
      upt_rec emit_def Let_def)


lemma two_sample_full_mode:
  "eval_model reading_class (two_sample_world\<lparr>self := (self two_sample_world)\<lparr>full_epoch := True\<rparr>\<rparr>)
   = (Inr (), emit (EvalLoss (Around 3 4))
        (two_sample_world\<lparr>self := (self two_sample_world)
           \<lparr>full_epoch := True, net := Some \<lparr>state_dict = [], training = False\<rparr>\<rparr>\<rparr>))"
  by (simp add: eval_model_def two_sample_world_def fresh_world_def new_trainer_def
      reading_class_def py_getitem_def emit_def Let_def)

lemma two_sample_spec_average:
  "sampled_average_spec reading_step two_sample_world = Inr (8 / 3)"
  by (simp add: sampled_average_spec_def two_sample_world_def fresh_world_def new_trainer_def
      dataloader_def subscript_slice_def py_getitem_def py_slice_to_def)

theorem sampled_mode_counterexample:
  "stdout (snd (eval_model reading_class two_sample_world)) = [EvalLoss (Around 3 4)]
   \<and> stdout (snd (eval_model reading_class
         (two_sample_world\<lparr>self := (self two_sample_world)\<lparr>full_epoch := True\<rparr>\<rparr>)))
       = [EvalLoss (Around 3 4)]
   \<and> sampled_average_spec reading_step two_sample_world = Inr (8 / 3)
   \<and> training_cycles (self two_sample_world) = 3
   \<and> idx_items (batch_idx_test (self two_sample_world)) = [0, 0, 1]
   \<and> X_test (self two_sample_world) = Some (Arr [Arr [Scalar 2], Arr [Scalar 4]])"
  by (simp add: two_sample_sampled_mode two_sample_full_mode two_sample_spec_average emit_def)
    (simp add: two_sample_world_def fresh_world_def new_trainer_def)

end
